theory Spec2Isabelle
  imports Main "HOL-Library.AList" "HOL-Library.Sublist" "HOL-Library.Char_ord"
    "HOL-Library.List_Lexorder" "HOL-Library.Product_Lexorder"
begin

section \<open>Values of the settings document\<close>

text \<open>
  The settings file is a JSON document and the program handles what \<^verbatim>\<open>json.load\<close>
  returns as untyped Python values. \<open>PNum\<close> is a JSON number: no function below computes
  with numbers, they are only tested for truth, so a number is represented by an integer
  (a non-integral number behaves as any non-zero one). A dictionary is an association
  list in insertion order, as Python keeps it and as \<^verbatim>\<open>json.dump\<close> writes it.
\<close>

datatype pyval =
    PNone
  | PBool bool
  | PNum int
  | PStr string
  | PList "pyval list"
  | PDict "(string \<times> pyval) list"

type_synonym pydict = "(string \<times> pyval) list"

text \<open>Python's truth value of an object (\<^verbatim>\<open>if x:\<close>, \<^verbatim>\<open>not x\<close>).\<close>

fun truthy :: "pyval \<Rightarrow> bool" where
  "truthy PNone = False"
| "truthy (PBool b) = b"
| "truthy (PNum n) = (n \<noteq> 0)"
| "truthy (PStr s) = (s \<noteq> [])"
| "truthy (PList xs) = (xs \<noteq> [])"
| "truthy (PDict d) = (d \<noteq> [])"

text \<open>\<^verbatim>\<open>d.get(k)\<close>, \<^verbatim>\<open>d.get(k, default)\<close>, \<^verbatim>\<open>k in d\<close>, \<^verbatim>\<open>d[k] = v\<close> and \<^verbatim>\<open>del d[k]\<close>.\<close>

definition dict_get :: "pydict \<Rightarrow> string \<Rightarrow> pyval" where
  "dict_get d k = (case map_of d k of None \<Rightarrow> PNone | Some v \<Rightarrow> v)"

definition dict_get_default :: "pydict \<Rightarrow> string \<Rightarrow> pyval \<Rightarrow> pyval" where
  "dict_get_default d k dflt = (case map_of d k of None \<Rightarrow> dflt | Some v \<Rightarrow> v)"

definition dict_has :: "pydict \<Rightarrow> string \<Rightarrow> bool" where
  "dict_has d k = (map_of d k \<noteq> None)"

definition dict_set :: "pydict \<Rightarrow> string \<Rightarrow> pyval \<Rightarrow> pydict" where
  "dict_set d k v = AList.update k v d"

definition dict_del :: "pydict \<Rightarrow> string \<Rightarrow> pydict" where
  "dict_del d k = AList.delete k d"

text \<open>
  The exceptions the modelled code can raise. \<open>ExternalError\<close> is an exception coming out
  of a call of the external command-line tool (for instance \<^verbatim>\<open>FileNotFoundError\<close> when
  the tool is not installed), with its text.
\<close>

datatype error =
    AttributeError
  | TypeError
  | ValueError
  | UnicodeDecodeError
  | OSError
  | EOFError
  | ExternalError string

text \<open>\<^verbatim>\<open>str(e)\<close>; only used as the tail of a longer message.\<close>

fun str_of_error :: "error \<Rightarrow> string" where
  "str_of_error AttributeError = ''object has no attribute''"
| "str_of_error TypeError = ''argument has the wrong type''"
| "str_of_error ValueError = ''invalid value''"
| "str_of_error UnicodeDecodeError = ''codec cannot decode''"
| "str_of_error OSError = ''No such file or directory''"
| "str_of_error EOFError = ''EOF when reading a line''"
| "str_of_error (ExternalError m) = m"

section \<open>config.py: the persisted state store\<close>

text \<open>
  What \<^verbatim>\<open>load_deployment_settings\<close> finds at the path of the settings file:
  no file; a file that is not UTF-8 text (\<^verbatim>\<open>open(..., encoding='utf-8')\<close> and
  \<^verbatim>\<open>json.load\<close> raise \<^verbatim>\<open>UnicodeDecodeError\<close>); text that is not JSON
  (\<^verbatim>\<open>json.JSONDecodeError\<close>); or a JSON document, with the value \<^verbatim>\<open>json.load\<close> returns.
\<close>

datatype settings_file =
    Absent
  | Undecodable
  | Unparsable
  | Parsed pyval

text \<open>
  The dataclass \<^verbatim>\<open>DeploymentSettings\<close>. Its fields hold whatever the document holds
  under the key: the annotations of the dataclass are not checked at run time.
\<close>

record DeploymentSettings =
  selected_parameter_file :: pyval
  last_updated :: pyval
  file_order :: pyval
  configuration :: pyval

text \<open>The constructor with \<^verbatim>\<open>__post_init__\<close>: a \<^verbatim>\<open>None\<close> list or mapping becomes empty.\<close>

definition mk_DeploymentSettings :: "pyval \<Rightarrow> pyval \<Rightarrow> pyval \<Rightarrow> pyval \<Rightarrow> DeploymentSettings" where
  "mk_DeploymentSettings spf lu fo cfg =
     \<lparr> selected_parameter_file = spf,
       last_updated = lu,
       file_order = (if fo = PNone then PList [] else fo),
       configuration = (if cfg = PNone then PDict [] else cfg) \<rparr>"

definition default_DeploymentSettings :: DeploymentSettings where
  "default_DeploymentSettings = mk_DeploymentSettings PNone PNone PNone PNone"

text \<open>
  \<^verbatim>\<open>ConfigManager.load_deployment_settings\<close> (config.py, lines 31-46). The handler
  catches \<^verbatim>\<open>json.JSONDecodeError\<close> and \<^verbatim>\<open>FileNotFoundError\<close> only; \<^verbatim>\<open>data.get\<close>
  exists only when the document is a JSON object.
\<close>

fun load_deployment_settings :: "settings_file \<Rightarrow> error + DeploymentSettings" where
  "load_deployment_settings Absent = Inr default_DeploymentSettings"
| "load_deployment_settings Undecodable = Inl UnicodeDecodeError"
| "load_deployment_settings Unparsable = Inr default_DeploymentSettings"
| "load_deployment_settings (Parsed (PDict data)) =
     Inr (mk_DeploymentSettings
            (dict_get data ''SelectedParameterFile'')
            (dict_get data ''LastUpdated'')
            (dict_get_default data ''FileOrder'' (PList []))
            (dict_get_default data ''Configuration'' (PDict [])))"
| "load_deployment_settings (Parsed _) = Inl AttributeError"

section \<open>bicep\_manager.py: the change detector\<close>

text \<open>
  A template file is named by its file name in the working directory (the program
  globs \<^verbatim>\<open>Path(".")\<close>). What the program can observe of a file: its size, its
  modification time (\<^verbatim>\<open>datetime.fromtimestamp(st_mtime)\<close>, on the scale of the parsed
  timestamps) and the SHA-256 hex digest of its bytes, \<open>None\<close> when reading the file
  raises \<^verbatim>\<open>OSError\<close>.
\<close>

record file_stat =
  st_size :: nat
  st_mtime :: int
  sha256_hex :: "string option"

text \<open>
  The surroundings the program reads but does not change: the directory, the clock
  (the string \<^verbatim>\<open>datetime.now().strftime("%Y-%m-%d %H:%M:%S")\<close> at each reading), the
  two library parsers of timestamps (\<open>None\<close> for \<^verbatim>\<open>ValueError\<close>), and the external tool:
  what its \<^verbatim>\<open>validate_template\<close> and \<^verbatim>\<open>deploy_template\<close> calls answer at a given
  moment for a given file (and deployment mode).
\<close>

record env =
  disk :: "(string \<times> file_stat) list"
  clock :: "nat \<Rightarrow> string"
  strptime :: "string \<Rightarrow> int option"
  fromisoformat :: "string \<Rightarrow> int option"
  validate_tool :: "nat \<Rightarrow> string \<Rightarrow> error + bool \<times> string"
  deploy_tool :: "nat \<Rightarrow> string \<Rightarrow> string \<Rightarrow> error + bool \<times> string"

text \<open>\<^verbatim>\<open>Path.stem\<close>: the name without its last suffix; a leading or a final dot starts no suffix.\<close>

fun rfind :: "char \<Rightarrow> string \<Rightarrow> nat option" where
  "rfind c [] = None"
| "rfind c (x # xs) =
     (case rfind c xs of
        Some i \<Rightarrow> Some (Suc i)
      | None \<Rightarrow> if x = c then Some 0 else None)"

definition stem :: "string \<Rightarrow> string" where
  "stem name =
     (case rfind (CHR ''.'') name of
        None \<Rightarrow> name
      | Some i \<Rightarrow> if 0 < i \<and> i < length name - 1 then take i name else name)"

text \<open>\<^verbatim>\<open>_get_current_file_hash\<close> (lines 34-41).\<close>

definition get_current_file_hash :: "env \<Rightarrow> string \<Rightarrow> string option" where
  "get_current_file_hash E file_path =
     (case map_of (disk E) file_path of
        None \<Rightarrow> None
      | Some st \<Rightarrow> sha256_hex st)"

text \<open>
  Lines 69-87 of \<^verbatim>\<open>_determine_deployment_status\<close>: the comparison of timestamps.
  \<^verbatim>\<open>strptime\<close> raises \<^verbatim>\<open>TypeError\<close> on an argument that is not a string, which the
  handler for \<^verbatim>\<open>(ValueError, OSError)\<close> does not catch; \<^verbatim>\<open>stat()\<close> raises
  \<^verbatim>\<open>OSError\<close> when the file is gone.
\<close>

definition timestamp_comparison :: "env \<Rightarrow> string \<Rightarrow> pydict \<Rightarrow> error + bool" where
  "timestamp_comparison E template_file file_settings =
     (let last_deployment_str = dict_get file_settings ''LastDeployment'' in
      if truthy last_deployment_str then
        (case last_deployment_str of
           PStr s \<Rightarrow>
             (case strptime E s of
                None \<Rightarrow> Inr True
              | Some last_deployment \<Rightarrow>
                  (case map_of (disk E) template_file of
                     None \<Rightarrow> Inr True
                   | Some st \<Rightarrow> Inr (st_mtime st > last_deployment)))
         | _ \<Rightarrow> Inl TypeError)
      else Inr True)"

text \<open>
  \<^verbatim>\<open>_determine_deployment_status\<close> (lines 43-87). \<^verbatim>\<open>not file_settings\<close> holds for
  \<^verbatim>\<open>None\<close> and for the empty dictionary; \<^verbatim>\<open>is False\<close> and \<^verbatim>\<open>is None\<close> are tests
  of identity; \<^verbatim>\<open>current_hash != last_hash\<close> compares a string with any value.
\<close>

definition determine_deployment_status ::
    "env \<Rightarrow> string \<Rightarrow> pydict option \<Rightarrow> error + bool \<times> string option" where
  "determine_deployment_status E template_file file_settings =
     (let current_hash = get_current_file_hash E template_file in
      case file_settings of
        None \<Rightarrow> Inr (True, current_hash)
      | Some fs \<Rightarrow>
          if fs = [] then Inr (True, current_hash)
          else
            let last_success = dict_get fs ''LastDeploymentSuccess'' in
            if last_success = PBool False then Inr (True, current_hash)
            else if last_success = PNone then Inr (False, current_hash)
            else
              let last_hash = dict_get fs ''LastFileHash'' in
              if truthy (case current_hash of None \<Rightarrow> PNone | Some c \<Rightarrow> PStr c) \<and> truthy last_hash
              then
                (if (case current_hash of None \<Rightarrow> PNone | Some c \<Rightarrow> PStr c) \<noteq> last_hash
                 then Inr (True, current_hash)
                 else Inr (False, current_hash))
              else
                (case timestamp_comparison E template_file fs of
                   Inl e \<Rightarrow> Inl e
                 | Inr b \<Rightarrow> Inr (b, current_hash)))"

text \<open>
  The test by which every lookup of the program takes a persisted entry for the entry
  of a file: \<^verbatim>\<open>f.get('FileName') in [file.name, file.stem]\<close>.
\<close>

definition entry_matches :: "pydict \<Rightarrow> string \<Rightarrow> bool" where
  "entry_matches f file_name =
     (dict_get f ''FileName'' = PStr file_name \<or> dict_get f ''FileName'' = PStr (stem file_name))"

section \<open>The state the program changes\<close>

text \<open>
  The settings file, the answers the operator is going to type, the number of readings
  of the clock and calls of the tool made so far, and the attribute
  \<^verbatim>\<open>skip_unchanged_global\<close> of the deployment manager. Every \<^verbatim>\<open>input(...)\<close> of
  deployment.py is followed by \<^verbatim>\<open>.upper()\<close>: \<open>inputs\<close> holds the answers as the
  program compares them, in upper case. \<open>journal\<close> is the record of a batch run: which
  templates \<^verbatim>\<open>deploy_bicep_template\<close> was called for, with what it returned, and the two
  messages of the loop on a template passed over or a batch broken off. Nothing reads it.
\<close>

datatype outcome = Success | Failure | Skipped

datatype event =
    Attempted string outcome
  | SkippedByOperator string
  | BatchCancelled

record world =
  settings_store :: settings_file
  inputs :: "string list"
  tick :: nat
  skip_unchanged_global :: string
  journal :: "event list"

text \<open>
  \<^verbatim>\<open>ConfigManager.save_deployment_settings\<close> (config.py, lines 48-60): stamps
  \<^verbatim>\<open>last_updated\<close> and overwrites the file with the document. A failure of the
  write itself (a read-only directory) is outside the model.
\<close>

definition save_deployment_settings :: "env \<Rightarrow> DeploymentSettings \<Rightarrow> world \<Rightarrow> world" where
  "save_deployment_settings E settings w =
     w\<lparr> tick := Suc (tick w),
        settings_store := Parsed (PDict
          [(''SelectedParameterFile'', selected_parameter_file settings),
           (''LastUpdated'', PStr (clock E (tick w))),
           (''FileOrder'', file_order settings),
           (''Configuration'', configuration settings)]) \<rparr>"

section \<open>bicep\_manager.py: the template registry\<close>

text \<open>
  \<^verbatim>\<open>for entry in settings.file_order\<close>: a list gives its elements, a string its
  characters, a dictionary its keys; nothing else can be iterated.
\<close>

fun py_iter :: "pyval \<Rightarrow> error + pyval list" where
  "py_iter (PList xs) = Inr xs"
| "py_iter (PStr s) = Inr (map (\<lambda>c. PStr [c]) s)"
| "py_iter (PDict d) = Inr (map (\<lambda>kv. PStr (fst kv)) d)"
| "py_iter PNone = Inl TypeError"
| "py_iter (PBool b) = Inl TypeError"
| "py_iter (PNum n) = Inl TypeError"

text \<open>
  \<^verbatim>\<open>any(key in f for key in ['LastDeployment', 'LastValidation',
  'LastDeploymentSuccess', 'LastValidationSuccess'])\<close>.
\<close>

definition has_history :: "pydict \<Rightarrow> bool" where
  "has_history f =
     (dict_has f ''LastDeployment'' \<or> dict_has f ''LastValidation''
      \<or> dict_has f ''LastDeploymentSuccess'' \<or> dict_has f ''LastValidationSuccess'')"

text \<open>
  The loop that looks a file up in the persisted order (lines 105-116, and again lines
  189-200 and 233-244): the first matching entry with history ends the loop, otherwise
  the last matching entry without history is kept. The result is the position of the
  entry and the entry. \<^verbatim>\<open>f.get\<close> on an element that is not a dictionary raises
  \<^verbatim>\<open>AttributeError\<close>.
\<close>

fun find_entry ::
    "string \<Rightarrow> pyval list \<Rightarrow> nat \<Rightarrow> (nat \<times> pydict) option \<Rightarrow> error + (nat \<times> pydict) option" where
  "find_entry file_name [] i simple = Inr simple"
| "find_entry file_name (PDict f # rest) i simple =
     (if entry_matches f file_name then
        (if has_history f then Inr (Some (i, f))
         else find_entry file_name rest (Suc i) (Some (i, f)))
      else find_entry file_name rest (Suc i) simple)"
| "find_entry file_name (v # rest) i simple = Inl AttributeError"

text \<open>
  \<^verbatim>\<open>next((f for f in settings.file_order if f.get('FileName') in names), None)\<close>: the
  first entry whose name is one of the given names, with its position.
\<close>

fun first_named :: "string list \<Rightarrow> pyval list \<Rightarrow> nat \<Rightarrow> error + (nat \<times> pydict) option" where
  "first_named names [] i = Inr None"
| "first_named names (PDict f # rest) i =
     (if dict_get f ''FileName'' \<in> set (map PStr names) then Inr (Some (i, f))
      else first_named names rest (Suc i))"
| "first_named names (v # rest) i = Inl AttributeError"

text \<open>\<^verbatim>\<open>test_template_modified\<close> (lines 157-169).\<close>

definition test_template_modified :: "env \<Rightarrow> string \<Rightarrow> world \<Rightarrow> error + bool" where
  "test_template_modified E template_file w =
     (case load_deployment_settings (settings_store w) of
        Inl e \<Rightarrow> Inl e
      | Inr settings \<Rightarrow>
          (case py_iter (file_order settings) of
             Inl e \<Rightarrow> Inl e
           | Inr entries \<Rightarrow>
               (case first_named [template_file, stem template_file] entries 0 of
                  Inl e \<Rightarrow> Inl e
                | Inr file_history \<Rightarrow>
                    (case determine_deployment_status E template_file (map_option snd file_history) of
                       Inl e \<Rightarrow> Inl e
                     | Inr (needs_redeployment, h) \<Rightarrow> Inr needs_redeployment))))"

text \<open>
  Lines 184-208 (the same lines are 228-252): the entry to update, found as above or
  appended as a bare entry. The result is the list of entries after this step, the
  position of the entry in it, and the entry. An entry can only be found in a list: the
  elements of a string or of a dictionary are strings. \<^verbatim>\<open>append\<close> exists on a list only.
\<close>

definition find_or_create_entry :: "string \<Rightarrow> pyval \<Rightarrow> error + (pyval list \<times> nat \<times> pydict)" where
  "find_or_create_entry template_file fo =
     (case py_iter fo of
        Inl e \<Rightarrow> Inl e
      | Inr entries \<Rightarrow>
          (case find_entry template_file entries 0 None of
             Inl e \<Rightarrow> Inl e
           | Inr (Some (i, file_entry)) \<Rightarrow> Inr (entries, i, file_entry)
           | Inr None \<Rightarrow>
               (case fo of
                  PList xs \<Rightarrow>
                    Inr (xs @ [PDict [(''FileName'', PStr template_file), (''Enabled'', PBool True)]],
                         length xs,
                         [(''FileName'', PStr template_file), (''Enabled'', PBool True)])
                | _ \<Rightarrow> Inl AttributeError)))"

text \<open>\<^verbatim>\<open>Optional[str]\<close> and \<^verbatim>\<open>Optional[bool]\<close> as values.\<close>

definition opt_str :: "string option \<Rightarrow> pyval" where
  "opt_str s = (case s of None \<Rightarrow> PNone | Some x \<Rightarrow> PStr x)"

text \<open>
  Lines 210-220: the fields \<^verbatim>\<open>update_deployment_history\<close> writes into the entry.
  \<^verbatim>\<open>if error_message:\<close> holds for a string that is not empty.
\<close>

definition record_deployment_fields ::
    "pydict \<Rightarrow> bool \<Rightarrow> string \<Rightarrow> string option \<Rightarrow> string option \<Rightarrow> pydict" where
  "record_deployment_fields file_entry success now file_hash error_message =
     (let updated =
            dict_set (dict_set (dict_set file_entry
              ''LastDeploymentSuccess'' (PBool success))
              ''LastDeployment'' (PStr now))
              ''LastFileHash'' (opt_str file_hash)
      in if truthy (opt_str error_message)
         then dict_set updated ''LastDeploymentError'' (opt_str error_message)
         else dict_del updated ''LastDeploymentError'')"

text \<open>
  \<^verbatim>\<open>update_deployment_history\<close> (lines 171-222). The entry is changed in place, at its
  position in the list.
\<close>

definition update_deployment_history ::
    "env \<Rightarrow> string \<Rightarrow> bool \<Rightarrow> string option \<Rightarrow> world \<Rightarrow> (error + unit) \<times> world" where
  "update_deployment_history E template_file success error_message w =
     (case load_deployment_settings (settings_store w) of
        Inl e \<Rightarrow> (Inl e, w)
      | Inr settings \<Rightarrow>
          let file_hash = get_current_file_hash E template_file in
          (case find_or_create_entry template_file (file_order settings) of
             Inl e \<Rightarrow> (Inl e, w)
           | Inr (entries, i, file_entry) \<Rightarrow>
               (Inr (),
                save_deployment_settings E
                  (settings\<lparr>file_order :=
                     PList (entries[i := PDict (record_deployment_fields file_entry success
                                                 (clock E (tick w)) file_hash error_message)])\<rparr>)
                  (w\<lparr>tick := Suc (tick w)\<rparr>))))"

text \<open>Lines 254-263: the fields \<^verbatim>\<open>update_validation_history\<close> writes into the entry.\<close>

definition record_validation_fields ::
    "pydict \<Rightarrow> bool \<Rightarrow> string \<Rightarrow> string option \<Rightarrow> pydict" where
  "record_validation_fields file_entry success now error_message =
     (let updated =
            dict_set (dict_set file_entry
              ''LastValidationSuccess'' (PBool success))
              ''LastValidation'' (PStr now)
      in if truthy (opt_str error_message)
         then dict_set updated ''LastValidationError'' (opt_str error_message)
         else dict_del updated ''LastValidationError'')"

text \<open>\<^verbatim>\<open>update_validation_history\<close> (lines 224-265).\<close>

definition update_validation_history ::
    "env \<Rightarrow> string \<Rightarrow> bool \<Rightarrow> string option \<Rightarrow> world \<Rightarrow> (error + unit) \<times> world" where
  "update_validation_history E template_file success error_message w =
     (case load_deployment_settings (settings_store w) of
        Inl e \<Rightarrow> (Inl e, w)
      | Inr settings \<Rightarrow>
          (case find_or_create_entry template_file (file_order settings) of
             Inl e \<Rightarrow> (Inl e, w)
           | Inr (entries, i, file_entry) \<Rightarrow>
               (Inr (),
                save_deployment_settings E
                  (settings\<lparr>file_order :=
                     PList (entries[i := PDict (record_validation_fields file_entry success
                                                 (clock E (tick w)) error_message)])\<rparr>)
                  (w\<lparr>tick := Suc (tick w)\<rparr>))))"

text \<open>
  \<^verbatim>\<open>reorder_templates\<close> (lines 314-341). The first loop takes, for each name of the
  new order, the first entry whose \<^verbatim>\<open>FileName\<close> equals it, or a fresh entry; the second
  loop keeps the entries whose name the new order does not list.
\<close>

fun reorder_first_loop :: "string list \<Rightarrow> pyval list \<Rightarrow> error + pyval list" where
  "reorder_first_loop [] entries = Inr []"
| "reorder_first_loop (filename # rest) entries =
     (case first_named [filename] entries 0 of
        Inl e \<Rightarrow> Inl e
      | Inr existing_entry \<Rightarrow>
          (case reorder_first_loop rest entries of
             Inl e \<Rightarrow> Inl e
           | Inr others \<Rightarrow>
               (case existing_entry of
                  Some (i, f) \<Rightarrow>
                    if f \<noteq> [] then Inr (PDict f # others)
                    else Inr (PDict [(''FileName'', PStr filename), (''Enabled'', PBool True)] # others)
                | None \<Rightarrow>
                    Inr (PDict [(''FileName'', PStr filename), (''Enabled'', PBool True)] # others))))"

fun reorder_second_loop :: "string list \<Rightarrow> pyval list \<Rightarrow> error + pyval list" where
  "reorder_second_loop new_order [] = Inr []"
| "reorder_second_loop new_order (PDict f # rest) =
     (case reorder_second_loop new_order rest of
        Inl e \<Rightarrow> Inl e
      | Inr others \<Rightarrow>
          if dict_get f ''FileName'' \<notin> set (map PStr new_order) then Inr (PDict f # others)
          else Inr others)"
| "reorder_second_loop new_order (v # rest) = Inl AttributeError"

definition reorder_templates :: "env \<Rightarrow> string list \<Rightarrow> world \<Rightarrow> (error + unit) \<times> world" where
  "reorder_templates E new_order w =
     (case load_deployment_settings (settings_store w) of
        Inl e \<Rightarrow> (Inl e, w)
      | Inr settings \<Rightarrow>
          (case py_iter (file_order settings) of
             Inl e \<Rightarrow> (Inl e, w)
           | Inr entries \<Rightarrow>
               (case reorder_first_loop new_order entries of
                  Inl e \<Rightarrow> (Inl e, w)
                | Inr placed \<Rightarrow>
                    (case reorder_second_loop new_order entries of
                       Inl e \<Rightarrow> (Inl e, w)
                     | Inr remaining \<Rightarrow>
                         (Inr (),
                          save_deployment_settings E
                            (settings\<lparr>file_order := PList (placed @ remaining)\<rparr>) w)))))"

text \<open>
  The dataclass \<^verbatim>\<open>BicepTemplate\<close>. The fields read with \<^verbatim>\<open>file_settings.get\<close> hold
  whatever the entry holds. \<open>file_path\<close> and \<open>file_size\<close> are the fields \<^verbatim>\<open>file\<close> and \<^verbatim>\<open>size\<close>.
\<close>

record BicepTemplate =
  name :: string
  file_path :: string
  file_size :: nat
  enabled :: pyval
  last_modified :: int
  last_deployment_success :: pyval
  last_deployment_error :: pyval
  last_deployment_time :: "int option"
  needs_redeployment :: bool
  last_file_hash :: "string option"
  last_validation_success :: pyval
  last_validation_error :: pyval
  last_validation_time :: "int option"

text \<open>\<^verbatim>\<open>Path(".").glob("*.bicep")\<close>: the files of the directory whose name ends so.\<close>

definition endswith :: "string \<Rightarrow> string \<Rightarrow> bool" where
  "endswith s suf = (length suf \<le> length s \<and> drop (length s - length suf) s = suf)"

definition glob_bicep :: "env \<Rightarrow> (string \<times> file_stat) list" where
  "glob_bicep E = filter (\<lambda>entry. endswith (fst entry) ''.bicep'') (disk E)"

text \<open>\<^verbatim>\<open>file_settings.get(k) if file_settings else None\<close>.\<close>

definition settings_get :: "pydict option \<Rightarrow> string \<Rightarrow> pyval" where
  "settings_get file_settings k =
     (case file_settings of
        None \<Rightarrow> PNone
      | Some fs \<Rightarrow> if fs \<noteq> [] then dict_get fs k else PNone)"

text \<open>
  \<^verbatim>\<open>datetime.fromisoformat(file_settings[k]) if file_settings and file_settings.get(k)
  else None\<close>: \<^verbatim>\<open>TypeError\<close> on a value that is not a string, \<^verbatim>\<open>ValueError\<close> on a
  string that is no ISO timestamp.
\<close>

definition parse_time :: "env \<Rightarrow> pydict option \<Rightarrow> string \<Rightarrow> error + int option" where
  "parse_time E file_settings k =
     (if truthy (settings_get file_settings k) then
        (case settings_get file_settings k of
           PStr s \<Rightarrow>
             (case fromisoformat E s of
                None \<Rightarrow> Inl ValueError
              | Some t \<Rightarrow> Inr (Some t))
         | _ \<Rightarrow> Inl TypeError)
      else Inr None)"

text \<open>The body of the loop of \<^verbatim>\<open>get_bicep_files\<close> (lines 97-145), for one file.\<close>

definition make_template :: "env \<Rightarrow> pyval \<Rightarrow> string \<times> file_stat \<Rightarrow> error + BicepTemplate" where
  "make_template E fo entry =
     (case py_iter fo of
        Inl e \<Rightarrow> Inl e
      | Inr entries \<Rightarrow>
          (case find_entry (fst entry) entries 0 None of
             Inl e \<Rightarrow> Inl e
           | Inr found \<Rightarrow>
               let file_settings = map_option snd found;
                   size = st_size (snd entry);
                   is_enabled =
                     (if size = 0 then PBool False
                      else (case file_settings of
                              None \<Rightarrow> PBool True
                            | Some fs \<Rightarrow>
                                if fs \<noteq> [] then dict_get_default fs ''Enabled'' (PBool True)
                                else PBool True))
               in
               (case determine_deployment_status E (fst entry) file_settings of
                  Inl e \<Rightarrow> Inl e
                | Inr (needs, current_hash) \<Rightarrow>
                    (case parse_time E file_settings ''LastDeployment'' of
                       Inl e \<Rightarrow> Inl e
                     | Inr deployment_time \<Rightarrow>
                         (case parse_time E file_settings ''LastValidation'' of
                            Inl e \<Rightarrow> Inl e
                          | Inr validation_time \<Rightarrow>
                              Inr \<lparr> name = fst entry,
                                    file_path = fst entry,
                                    file_size = size,
                                    enabled = is_enabled,
                                    last_modified = st_mtime (snd entry),
                                    last_deployment_success =
                                      settings_get file_settings ''LastDeploymentSuccess'',
                                    last_deployment_error =
                                      settings_get file_settings ''LastDeploymentError'',
                                    last_deployment_time = deployment_time,
                                    needs_redeployment = needs,
                                    last_file_hash = current_hash,
                                    last_validation_success =
                                      settings_get file_settings ''LastValidationSuccess'',
                                    last_validation_error =
                                      settings_get file_settings ''LastValidationError'',
                                    last_validation_time = validation_time \<rparr>)))))"

text \<open>A loop that builds a list and stops at the first exception.\<close>

fun collect :: "('a \<Rightarrow> error + 'b) \<Rightarrow> 'a list \<Rightarrow> error + 'b list" where
  "collect g [] = Inr []"
| "collect g (x # xs) =
     (case g x of
        Inl e \<Rightarrow> Inl e
      | Inr y \<Rightarrow>
          (case collect g xs of
             Inl e \<Rightarrow> Inl e
           | Inr ys \<Rightarrow> Inr (y # ys)))"

text \<open>
  \<^verbatim>\<open>sort_key\<close> (lines 148-153): the position of the first entry named as the template
  or as its stem, the length of the order when there is none, then the name.
\<close>

definition template_sort_key :: "pyval \<Rightarrow> BicepTemplate \<Rightarrow> error + (nat \<times> string)" where
  "template_sort_key fo template =
     (case py_iter fo of
        Inl e \<Rightarrow> Inl e
      | Inr entries \<Rightarrow>
          (case first_named [name template, stem (file_path template)] entries 0 of
             Inl e \<Rightarrow> Inl e
           | Inr (Some (i, f)) \<Rightarrow> Inr (i, name template)
           | Inr None \<Rightarrow> Inr (length entries, name template)))"

text \<open>\<^verbatim>\<open>get_bicep_files\<close> (lines 89-155); \<^verbatim>\<open>sorted\<close> is stable, as \<open>sort_key\<close> is.\<close>

definition get_bicep_files :: "env \<Rightarrow> world \<Rightarrow> error + BicepTemplate list" where
  "get_bicep_files E w =
     (case load_deployment_settings (settings_store w) of
        Inl e \<Rightarrow> Inl e
      | Inr settings \<Rightarrow>
          (case collect (make_template E (file_order settings)) (glob_bicep E) of
             Inl e \<Rightarrow> Inl e
           | Inr templates \<Rightarrow>
               (case collect (template_sort_key (file_order settings)) templates of
                  Inl e \<Rightarrow> Inl e
                | Inr keys \<Rightarrow> Inr (map snd (sort_key fst (zip keys templates))))))"

text \<open>
  \<^verbatim>\<open>{entry.get('FileName') for entry in settings.file_order}\<close>: a list or a dictionary
  cannot be an element of a set (\<^verbatim>\<open>TypeError: unhashable type\<close>).
\<close>

fun existing_names :: "pyval list \<Rightarrow> error + pyval list" where
  "existing_names [] = Inr []"
| "existing_names (PDict f # rest) =
     (case dict_get f ''FileName'' of
        PList xs \<Rightarrow> Inl TypeError
      | PDict d \<Rightarrow> Inl TypeError
      | v \<Rightarrow>
          (case existing_names rest of
             Inl e \<Rightarrow> Inl e
           | Inr vs \<Rightarrow> Inr (v # vs)))"
| "existing_names (v # rest) = Inl AttributeError"

text \<open>\<^verbatim>\<open>refresh_file_list\<close> (lines 343-362); \<^verbatim>\<open>extend\<close> exists on a list only.\<close>

definition refresh_file_list :: "env \<Rightarrow> world \<Rightarrow> (error + nat) \<times> world" where
  "refresh_file_list E w =
     (case get_bicep_files E w of
        Inl e \<Rightarrow> (Inl e, w)
      | Inr templates \<Rightarrow>
          (case load_deployment_settings (settings_store w) of
             Inl e \<Rightarrow> (Inl e, w)
           | Inr settings \<Rightarrow>
               (case py_iter (file_order settings) of
                  Inl e \<Rightarrow> (Inl e, w)
                | Inr entries \<Rightarrow>
                    (case existing_names entries of
                       Inl e \<Rightarrow> (Inl e, w)
                     | Inr existing_files \<Rightarrow>
                         let new_files =
                               map (\<lambda>t. PDict [(''FileName'', PStr (name t)), (''Enabled'', PBool True)])
                                 (filter (\<lambda>t. PStr (name t) \<notin> set existing_files) templates)
                         in
                         if new_files \<noteq> [] then
                           (case file_order settings of
                              PList xs \<Rightarrow>
                                (Inr (length templates),
                                 save_deployment_settings E
                                   (settings\<lparr>file_order := PList (xs @ new_files)\<rparr>) w)
                            | _ \<Rightarrow> (Inl AttributeError, w))
                         else (Inr (length templates), w)))))"

section \<open>deployment.py: the deployment orchestrator\<close>

text \<open>\<^verbatim>\<open>input(...).upper()\<close>: the next answer, \<^verbatim>\<open>EOFError\<close> when there is none.\<close>

definition read_input :: "world \<Rightarrow> (error + string) \<times> world" where
  "read_input w =
     (case inputs w of
        [] \<Rightarrow> (Inl EOFError, w)
      | answer # rest \<Rightarrow> (Inr answer, w\<lparr>inputs := rest\<rparr>))"

text \<open>
  The \<^verbatim>\<open>while True\<close> loop of \<^verbatim>\<open>confirm_deploy_unchanged\<close> (lines 27-41), over the
  answers to come: the action, the new value of \<^verbatim>\<open>skip_unchanged_global\<close> when the
  answer sets it, and the answers left.
\<close>

fun unchanged_prompt :: "string list \<Rightarrow> (error + string \<times> string option) \<times> string list" where
  "unchanged_prompt [] = (Inl EOFError, [])"
| "unchanged_prompt (choice # rest) =
     (if choice = [] \<or> choice = ''Y'' then (Inr (''deploy'', None), rest)
      else if choice = ''N'' then (Inr (''skip'', None), rest)
      else if choice = ''A'' then (Inr (''skip'', Some ''skip''), rest)
      else if choice = ''L'' then (Inr (''deploy'', Some ''deploy''), rest)
      else unchanged_prompt rest)"

text \<open>\<^verbatim>\<open>confirm_deploy_unchanged\<close> (lines 20-41).\<close>

definition confirm_deploy_unchanged :: "string \<Rightarrow> world \<Rightarrow> (error + string) \<times> world" where
  "confirm_deploy_unchanged template_name w =
     (if skip_unchanged_global w \<noteq> ''prompt'' then (Inr (skip_unchanged_global w), w)
      else
        (case unchanged_prompt (inputs w) of
           (Inl e, rest) \<Rightarrow> (Inl e, w\<lparr>inputs := rest\<rparr>)
         | (Inr (action, sticky), rest) \<Rightarrow>
             (Inr action,
              w\<lparr>inputs := rest,
                skip_unchanged_global :=
                  (case sticky of None \<Rightarrow> skip_unchanged_global w | Some v \<Rightarrow> v)\<rparr>)))"

text \<open>
  The \<^verbatim>\<open>while True\<close> loop of \<^verbatim>\<open>get_deployment_mode\<close> (lines 82-98); \<open>None\<close> is the
  choice to quit.
\<close>

fun deployment_mode_prompt :: "string list \<Rightarrow> (error + string option) \<times> string list" where
  "deployment_mode_prompt [] = (Inl EOFError, [])"
| "deployment_mode_prompt (choice # rest) =
     (if choice = [] \<or> choice = ''I'' then (Inr (Some ''Incremental''), rest)
      else if choice = ''C'' then
        (case rest of
           [] \<Rightarrow> (Inl EOFError, [])
         | confirm # rest' \<Rightarrow>
             if confirm = ''Y'' then (Inr (Some ''Complete''), rest')
             else deployment_mode_prompt rest')
      else if choice = ''Q'' then (Inr None, rest)
      else deployment_mode_prompt rest)"

definition get_deployment_mode :: "world \<Rightarrow> (error + string option) \<times> world" where
  "get_deployment_mode w =
     (case deployment_mode_prompt (inputs w) of
        (r, rest) \<Rightarrow> (r, w\<lparr>inputs := rest\<rparr>))"

text \<open>
  The calls of the external tool through \<^verbatim>\<open>show_progress_spinner\<close>, which hands on the
  result or the exception of the call. The resource group and the parameter file only go
  into the command line of the tool.
\<close>

definition call_validate :: "env \<Rightarrow> string \<Rightarrow> world \<Rightarrow> (error + bool \<times> string) \<times> world" where
  "call_validate E template_file w =
     (validate_tool E (tick w) template_file, w\<lparr>tick := Suc (tick w)\<rparr>)"

definition call_deploy :: "env \<Rightarrow> string \<Rightarrow> string \<Rightarrow> world \<Rightarrow> (error + bool \<times> string) \<times> world" where
  "call_deploy E template_file mode w =
     (deploy_tool E (tick w) template_file mode, w\<lparr>tick := Suc (tick w)\<rparr>)"

text \<open>Lines 122-138 of \<^verbatim>\<open>deploy_bicep_template\<close>.\<close>

definition should_validate :: "bool \<Rightarrow> string \<Rightarrow> bool \<Rightarrow> bool" where
  "should_validate skip_validation validation_mode template_needs_redeployment =
     (if skip_validation then False
      else if validation_mode = ''All'' then True
      else if validation_mode = ''Changed'' then template_needs_redeployment
      else False)"

text \<open>
  \<^verbatim>\<open>update_deployment_history\<close> followed by \<^verbatim>\<open>return\<close> of the given result, as every
  branch of \<^verbatim>\<open>deploy_bicep_template\<close> ends.
\<close>

definition record_and_return ::
    "env \<Rightarrow> string \<Rightarrow> bool \<Rightarrow> string option \<Rightarrow> outcome \<Rightarrow> world \<Rightarrow> (error + outcome) \<times> world" where
  "record_and_return E template_file success error_message result w =
     (case update_deployment_history E template_file success error_message w of
        (Inl e, w') \<Rightarrow> (Inl e, w')
      | (Inr u, w') \<Rightarrow> (Inr result, w'))"

text \<open>Lines 163-185: the deployment itself.\<close>

definition deploy_stage :: "env \<Rightarrow> string \<Rightarrow> string \<Rightarrow> world \<Rightarrow> (error + outcome) \<times> world" where
  "deploy_stage E template_file mode w =
     (case call_deploy E template_file mode w of
        (Inl e, w1) \<Rightarrow> (Inl e, w1)
      | (Inr (success, deploy_message), w1) \<Rightarrow>
          if success then record_and_return E template_file True None Success w1
          else record_and_return E template_file False
                 (Some (''Deployment failed: '' @ deploy_message)) Failure w1)"

text \<open>Lines 142-185: the validation when it is due, then the deployment.\<close>

definition validate_stage ::
    "env \<Rightarrow> string \<Rightarrow> string \<Rightarrow> bool \<Rightarrow> world \<Rightarrow> (error + outcome) \<times> world" where
  "validate_stage E template_file mode validating w =
     (if validating then
        (case call_validate E template_file w of
           (Inl e, w1) \<Rightarrow> (Inl e, w1)
         | (Inr (is_valid, validation_message), w1) \<Rightarrow>
             if \<not> is_valid then
               record_and_return E template_file False
                 (Some (''Template validation failed: '' @ validation_message)) Failure w1
             else deploy_stage E template_file mode w1)
      else deploy_stage E template_file mode w)"

text \<open>
  The \<^verbatim>\<open>try\<close> block of \<^verbatim>\<open>deploy_bicep_template\<close> (lines 106-185).
  \<^verbatim>\<open>template_file.stat()\<close> raises \<^verbatim>\<open>OSError\<close> when the file does not exist.
\<close>

definition deploy_try ::
    "env \<Rightarrow> string \<Rightarrow> string \<Rightarrow> string \<Rightarrow> string \<Rightarrow> bool \<Rightarrow> string \<Rightarrow> bool \<Rightarrow> world
       \<Rightarrow> (error + outcome) \<times> world" where
  "deploy_try E template_file mode template_name skip_unchanged skip_validation
       validation_mode template_needs_redeployment w =
     (case map_of (disk E) template_file of
        None \<Rightarrow> (Inl OSError, w)
      | Some st \<Rightarrow>
          if st_size st = 0 then
            record_and_return E template_file False
              (Some (''Cannot deploy empty template file: '' @ template_name)) Failure w
          else
            (case test_template_modified E template_file w of
               Inl e \<Rightarrow> (Inl e, w)
             | Inr template_changed \<Rightarrow>
                 if \<not> template_changed then
                   (case (if skip_unchanged = ''prompt''
                          then confirm_deploy_unchanged template_name w
                          else (Inr skip_unchanged, w)) of
                      (Inl e, w1) \<Rightarrow> (Inl e, w1)
                    | (Inr action, w1) \<Rightarrow>
                        if action = ''skip'' then (Inr Skipped, w1)
                        else validate_stage E template_file mode
                               (should_validate skip_validation validation_mode
                                  template_needs_redeployment) w1)
                 else validate_stage E template_file mode
                        (should_validate skip_validation validation_mode
                           template_needs_redeployment) w))"

text \<open>
  \<^verbatim>\<open>deploy_bicep_template\<close> (lines 100-191): the \<^verbatim>\<open>try\<close> block and the handler of
  \<^verbatim>\<open>Exception\<close>, which records the failure and returns \<^verbatim>\<open>False\<close>. The results are
  \<^verbatim>\<open>True\<close> (\<open>Success\<close>), \<^verbatim>\<open>False\<close> (\<open>Failure\<close>) and \<^verbatim>\<open>"skipped"\<close>.
\<close>

definition deploy_bicep_template ::
    "env \<Rightarrow> string \<Rightarrow> string \<Rightarrow> string \<Rightarrow> string \<Rightarrow> bool \<Rightarrow> string \<Rightarrow> bool \<Rightarrow> world
       \<Rightarrow> (error + outcome) \<times> world" where
  "deploy_bicep_template E template_file mode template_name skip_unchanged skip_validation
       validation_mode template_needs_redeployment w =
     (case deploy_try E template_file mode template_name skip_unchanged skip_validation
             validation_mode template_needs_redeployment w of
        (Inr result, w1) \<Rightarrow> (Inr result, w1)
      | (Inl e, w1) \<Rightarrow>
          record_and_return E template_file False
            (Some (''Unexpected error during deployment: '' @ str_of_error e)) Failure w1)"

text \<open>
  The body of the loop of \<^verbatim>\<open>validate_all_templates\<close> (lines 216-241) for one
  template: whether it counts as a successful validation. An exception of the
  \<^verbatim>\<open>try\<close> block, also one of \<^verbatim>\<open>update_validation_history\<close>, goes to the handler,
  which records the failure.
\<close>

definition validate_handler :: "env \<Rightarrow> string \<Rightarrow> error \<Rightarrow> world \<Rightarrow> (error + bool) \<times> world" where
  "validate_handler E template_file e w =
     (case update_validation_history E template_file False (Some (str_of_error e)) w of
        (Inl e', w') \<Rightarrow> (Inl e', w')
      | (Inr u, w') \<Rightarrow> (Inr False, w'))"

definition validate_one :: "env \<Rightarrow> BicepTemplate \<Rightarrow> world \<Rightarrow> (error + bool) \<times> world" where
  "validate_one E template w =
     (case call_validate E (file_path template) w of
        (Inl e, w1) \<Rightarrow> validate_handler E (file_path template) e w1
      | (Inr (is_valid, validation_message), w1) \<Rightarrow>
          (case update_validation_history E (file_path template) is_valid
                  (if is_valid then None else Some validation_message) w1 of
             (Inl e, w2) \<Rightarrow> validate_handler E (file_path template) e w2
           | (Inr u, w2) \<Rightarrow> (Inr is_valid, w2)))"

fun validate_loop ::
    "env \<Rightarrow> BicepTemplate list \<Rightarrow> nat \<times> nat \<Rightarrow> world \<Rightarrow> (error + nat \<times> nat) \<times> world" where
  "validate_loop E [] counts w = (Inr counts, w)"
| "validate_loop E (template # rest) counts w =
     (case validate_one E template w of
        (Inl e, w1) \<Rightarrow> (Inl e, w1)
      | (Inr ok, w1) \<Rightarrow>
          validate_loop E rest
            (if ok then (Suc (fst counts), snd counts) else (fst counts, Suc (snd counts))) w1)"

text \<open>\<^verbatim>\<open>validate_all_templates\<close> (lines 193-248).\<close>

definition validate_all_templates ::
    "env \<Rightarrow> BicepTemplate list \<Rightarrow> world \<Rightarrow> (error + nat \<times> nat) \<times> world" where
  "validate_all_templates E templates w =
     (let enabled_templates = filter (\<lambda>t. truthy (enabled t) \<and> file_size t > 0) templates in
      if enabled_templates = [] then (Inr (0, 0), w)
      else validate_loop E enabled_templates (0, 0) w)"

text \<open>
  Lines 264-277 (and 284-297): the validation of a set of templates before the batch
  and, when some failed, the question whether to go on. The result says whether the
  batch goes on.
\<close>

definition bulk_validation :: "env \<Rightarrow> BicepTemplate list \<Rightarrow> world \<Rightarrow> (error + bool) \<times> world" where
  "bulk_validation E templates w =
     (case validate_all_templates E templates w of
        (Inl e, w1) \<Rightarrow> (Inl e, w1)
      | (Inr (successful_validations, failed_validations), w1) \<Rightarrow>
          if failed_validations > 0 then
            (case read_input w1 of
               (Inl e, w2) \<Rightarrow> (Inl e, w2)
             | (Inr continue_choice, w2) \<Rightarrow> (Inr (continue_choice = ''Y''), w2))
          else (Inr True, w1))"

text \<open>
  Lines 259-304: the validation policy of the batch. The result is \<open>None\<close> when the
  operator cancels, otherwise the flag \<^verbatim>\<open>skip_individual_validation\<close>.
\<close>

definition validation_policy ::
    "env \<Rightarrow> BicepTemplate list \<Rightarrow> BicepTemplate list \<Rightarrow> string \<Rightarrow> world
       \<Rightarrow> (error + bool option) \<times> world" where
  "validation_policy E templates enabled_templates validation_mode w =
     (if validation_mode = ''All'' then
        (case bulk_validation E templates w of
           (Inl e, w1) \<Rightarrow> (Inl e, w1)
         | (Inr go_on, w1) \<Rightarrow> (Inr (if go_on then Some True else None), w1))
      else if validation_mode = ''Changed'' then
        (let changed_templates = filter needs_redeployment enabled_templates in
         if changed_templates \<noteq> [] then
           (case bulk_validation E changed_templates w of
              (Inl e, w1) \<Rightarrow> (Inl e, w1)
            | (Inr go_on, w1) \<Rightarrow> (Inr (if go_on then Some True else None), w1))
         else (Inr (Some False), w))
      else (Inr (Some True), w))"

text \<open>How a pass of a \<^verbatim>\<open>for\<close> loop ends: it goes on to the next item, or it breaks.\<close>

datatype 'a loop_step = Continue 'a | Break 'a

fun counts_of :: "'a loop_step \<Rightarrow> 'a" where
  "counts_of (Continue c) = c"
| "counts_of (Break c) = c"

text \<open>
  Lines 333-343: a template whose record shows a failed deployment with its error is
  deployed only when the operator does not answer N.
\<close>

definition prior_failure_gate :: "BicepTemplate \<Rightarrow> world \<Rightarrow> (error + bool) \<times> world" where
  "prior_failure_gate template w =
     (if truthy (last_deployment_error template) \<and> \<not> truthy (last_deployment_success template)
      then
        (case read_input w of
           (Inl e, w1) \<Rightarrow> (Inl e, w1)
         | (Inr continue_choice, w1) \<Rightarrow> (Inr (continue_choice \<noteq> ''N''), w1))
      else (Inr True, w))"

text \<open>
  The body of the loop of \<^verbatim>\<open>deploy_all_templates\<close> (lines 330-376) for the
  \<open>i\<close>-th template (counted from 1), with the counters
  \<^verbatim>\<open>(successful_deployments, failed_deployments)\<close>.
\<close>

definition deploy_iteration ::
    "env \<Rightarrow> string \<Rightarrow> bool \<Rightarrow> string \<Rightarrow> nat \<Rightarrow> BicepTemplate \<Rightarrow> nat \<times> nat \<Rightarrow> world
       \<Rightarrow> (error + (nat \<times> nat) loop_step) \<times> world" where
  "deploy_iteration E mode skip_individual_validation validation_mode i template counts w =
     (case prior_failure_gate template w of
        (Inl e, w1) \<Rightarrow> (Inl e, w1)
      | (Inr go_on, w1) \<Rightarrow>
          if \<not> go_on then
            (Inr (Continue counts),
             w1\<lparr>journal := journal w1 @ [SkippedByOperator (name template)]\<rparr>)
          else
            (case deploy_bicep_template E (file_path template)
                    (if i = 1 then mode else ''Incremental'') (name template)
                    (skip_unchanged_global w1) skip_individual_validation validation_mode
                    (needs_redeployment template) w1 of
               (Inl e, w2) \<Rightarrow> (Inl e, w2)
             | (Inr result, w2) \<Rightarrow>
                 let w3 = w2\<lparr>journal := journal w2 @ [Attempted (name template) result]\<rparr> in
                 if result = Success then (Inr (Continue (Suc (fst counts), snd counts)), w3)
                 else if result = Skipped then (Inr (Continue (Suc (fst counts), snd counts)), w3)
                 else
                   (case read_input w3 of
                      (Inl e, w4) \<Rightarrow> (Inl e, w4)
                    | (Inr continue_choice, w4) \<Rightarrow>
                        if continue_choice = ''N'' then
                          (Inr (Break (fst counts, Suc (snd counts))),
                           w4\<lparr>journal := journal w4 @ [BatchCancelled]\<rparr>)
                        else (Inr (Continue (fst counts, Suc (snd counts))), w4))))"

text \<open>The loop (lines 330-376): \<open>Continue\<close> when it ran to the end of the list.\<close>

fun deploy_loop ::
    "env \<Rightarrow> string \<Rightarrow> bool \<Rightarrow> string \<Rightarrow> nat \<Rightarrow> BicepTemplate list \<Rightarrow> nat \<times> nat \<Rightarrow> world
       \<Rightarrow> (error + (nat \<times> nat) loop_step) \<times> world" where
  "deploy_loop E mode siv vm i [] counts w = (Inr (Continue counts), w)"
| "deploy_loop E mode siv vm i (template # rest) counts w =
     (case deploy_iteration E mode siv vm i template counts w of
        (Inl e, w1) \<Rightarrow> (Inl e, w1)
      | (Inr (Break c), w1) \<Rightarrow> (Inr (Break c), w1)
      | (Inr (Continue c), w1) \<Rightarrow> deploy_loop E mode siv vm (Suc i) rest c w1)"

text \<open>\<^verbatim>\<open>deploy_all_templates\<close> (lines 250-383).\<close>

definition deploy_all_templates ::
    "env \<Rightarrow> BicepTemplate list \<Rightarrow> string \<Rightarrow> world \<Rightarrow> (error + nat \<times> nat) \<times> world" where
  "deploy_all_templates E templates validation_mode w =
     (let enabled_templates = filter (\<lambda>t. truthy (enabled t)) templates in
      if enabled_templates = [] then (Inr (0, 0), w)
      else
        (case validation_policy E templates enabled_templates validation_mode w of
           (Inl e, w1) \<Rightarrow> (Inl e, w1)
         | (Inr None, w1) \<Rightarrow> (Inr (0, 0), w1)
         | (Inr (Some skip_individual_validation), w1) \<Rightarrow>
             (case get_deployment_mode w1 of
                (Inl e, w2) \<Rightarrow> (Inl e, w2)
              | (Inr None, w2) \<Rightarrow> (Inr (0, 0), w2)
              | (Inr (Some mode), w2) \<Rightarrow>
                  (case deploy_loop E mode skip_individual_validation validation_mode 1
                          enabled_templates (0, 0)
                          (w2\<lparr>skip_unchanged_global := ''prompt''\<rparr>) of
                     (Inl e, w3) \<Rightarrow> (Inl e, w3)
                   | (Inr step, w3) \<Rightarrow> (Inr (counts_of step), w3)))))"

section \<open>Reading the persisted state, and a small installation\<close>

text \<open>
  The entry of a file in the settings file, found as the program itself finds it (the
  lookup of \<open>find_entry\<close>), and the persisted order when it is a list.
\<close>

definition persisted_order :: "world \<Rightarrow> pyval list option" where
  "persisted_order w =
     (case load_deployment_settings (settings_store w) of
        Inl e \<Rightarrow> None
      | Inr settings \<Rightarrow>
          (case file_order settings of
             PList entries \<Rightarrow> Some entries
           | _ \<Rightarrow> None))"

definition persisted_entry :: "world \<Rightarrow> string \<Rightarrow> pydict option" where
  "persisted_entry w template_file =
     (case persisted_order w of
        None \<Rightarrow> None
      | Some entries \<Rightarrow>
          (case find_entry template_file entries 0 None of
             Inl e \<Rightarrow> None
           | Inr found \<Rightarrow> map_option snd found))"

text \<open>
  A settings file the registry can work on: it loads, and its order is a list of
  dictionaries, as the dataclass declares (\<^verbatim>\<open>List[Dict[str, Any]]\<close>).
\<close>

fun is_dict :: "pyval \<Rightarrow> bool" where
  "is_dict (PDict d) = True"
| "is_dict v = False"

definition well_typed_store :: "world \<Rightarrow> bool" where
  "well_typed_store w =
     (case persisted_order w of
        None \<Rightarrow> False
      | Some entries \<Rightarrow> list_all is_dict entries)"

text \<open>
  A directory with three templates and a tool that validates everything and deploys
  everything but \<^verbatim>\<open>b.bicep\<close>.
\<close>

definition example_env :: env where
  "example_env =
     \<lparr> disk =
         [(''a.bicep'', \<lparr>st_size = 120, st_mtime = 100, sha256_hex = Some ''1f''\<rparr>),
          (''b.bicep'', \<lparr>st_size = 80, st_mtime = 100, sha256_hex = Some ''2e''\<rparr>),
          (''c.bicep'', \<lparr>st_size = 64, st_mtime = 100, sha256_hex = Some ''3d''\<rparr>)],
       clock = (\<lambda>n. ''2025-09-05 09:29:07''),
       strptime = (\<lambda>s. Some 50),
       fromisoformat = (\<lambda>s. Some 50),
       validate_tool = (\<lambda>n f. Inr (True, ''Template validation successful'')),
       deploy_tool =
         (\<lambda>n f m. if f = ''b.bicep'' then Inr (False, ''boom'')
                  else Inr (True, ''Deployment successful'')) \<rparr>"

section \<open>Properties of the change detector\<close>

lemma dict_get_set: "dict_get (dict_set d k v) k' = (if k' = k then v else dict_get d k')"
  by (simp add: dict_get_def dict_set_def update_conv')

lemma dict_get_del: "dict_get (dict_del d k) k' = (if k' = k then PNone else dict_get d k')"
  by (simp add: dict_get_def dict_del_def delete_conv')

lemma dict_has_set: "dict_has (dict_set d k v) k' = (k' = k \<or> dict_has d k')"
  by (simp add: dict_has_def dict_set_def update_conv')

lemma dict_has_del: "dict_has (dict_del d k) k' = (k' \<noteq> k \<and> dict_has d k')"
  by (simp add: dict_has_def dict_del_def delete_conv')

lemma entry_matches_nonempty: "entry_matches fs f \<Longrightarrow> fs \<noteq> []"
  by (auto simp: entry_matches_def dict_get_def)

text \<open>
  C1. When the record of a file shows a successful last deployment and both the hash of
  the file just computed and the persisted hash are there (a digest is never the empty
  string), the file needs redeployment exactly when the two hashes differ. The result is
  the same for every parser of timestamps and every stored deployment time: the
  comparison of timestamps is not consulted.
\<close>

theorem hash_comparison_decides:
  assumes "dict_get fs ''LastDeploymentSuccess'' = PBool True"
    and "get_current_file_hash E f = Some c" and "c \<noteq> []"
    and "dict_get fs ''LastFileHash'' = PStr h" and "h \<noteq> []"
  shows "determine_deployment_status E f (Some fs) = Inr (c \<noteq> h, Some c)
         \<and> determine_deployment_status (E\<lparr>strptime := p\<rparr>) f
             (Some (dict_set fs ''LastDeployment'' v)) = Inr (c \<noteq> h, Some c)"
proof -
  from assms(1) have ne: "fs \<noteq> []" by (auto simp: dict_get_def)
  have first: "determine_deployment_status E f (Some fs) = Inr (c \<noteq> h, Some c)"
    using assms ne by (simp add: determine_deployment_status_def Let_def)
  have ne': "dict_set fs ''LastDeployment'' v \<noteq> []"
    by (cases fs) (auto simp: dict_set_def)
  have h': "get_current_file_hash (E\<lparr>strptime := p\<rparr>) f = Some c"
    using assms(2) by (simp add: get_current_file_hash_def)
  have "determine_deployment_status (E\<lparr>strptime := p\<rparr>) f
           (Some (dict_set fs ''LastDeployment'' v)) = Inr (c \<noteq> h, Some c)"
    using assms ne' h' by (simp add: determine_deployment_status_def dict_get_set Let_def)
  with first show ?thesis by simp
qed

theorem hash_comparison_decides_witness:
  "determine_deployment_status example_env ''a.bicep''
     (Some [(''FileName'', PStr ''a.bicep''), (''LastDeploymentSuccess'', PBool True),
            (''LastDeployment'', PStr ''2025-09-05 09:29:07''),
            (''LastFileHash'', PStr ''00'')])
   = Inr (True, Some ''1f'')"
proof -
  let ?fs = "[(''FileName'', PStr ''a.bicep''), (''LastDeploymentSuccess'', PBool True),
              (''LastDeployment'', PStr ''2025-09-05 09:29:07''),
              (''LastFileHash'', PStr ''00'')]"
  have h1: "dict_get ?fs ''LastDeploymentSuccess'' = PBool True"
    by (simp add: dict_get_def)
  have h2: "get_current_file_hash example_env ''a.bicep'' = Some ''1f''"
    by (simp add: get_current_file_hash_def example_env_def)
  have h3: "''1f'' \<noteq> []" by simp
  have h4: "dict_get ?fs ''LastFileHash'' = PStr ''00''"
    by (simp add: dict_get_def)
  have h5: "''00'' \<noteq> []" by simp
  show ?thesis
    using hash_comparison_decides [OF h1 h2 h3 h4 h5] by simp
qed

text \<open>
  C2. When the record of a file has its last deployment outcome recorded as failure,
  the file needs redeployment, whatever the hashes and the timestamps are.
\<close>

theorem failed_deployment_needs_redeployment:
  assumes "dict_get fs ''LastDeploymentSuccess'' = PBool False"
  shows "determine_deployment_status E f (Some fs) = Inr (True, get_current_file_hash E f)"
  using assms by (auto simp: determine_deployment_status_def Let_def)

theorem failed_deployment_needs_redeployment_witness:
  "determine_deployment_status example_env ''a.bicep''
     (Some [(''FileName'', PStr ''a.bicep''), (''LastDeploymentSuccess'', PBool False),
            (''LastFileHash'', PStr ''1f'')])
   = Inr (True, Some ''1f'')"
proof -
  let ?fs = "[(''FileName'', PStr ''a.bicep''), (''LastDeploymentSuccess'', PBool False),
              (''LastFileHash'', PStr ''1f'')]"
  have h1: "dict_get ?fs ''LastDeploymentSuccess'' = PBool False"
    by (simp add: dict_get_def)
  show ?thesis
    using failed_deployment_needs_redeployment [OF h1, of example_env "''a.bicep''"]
    by (simp add: get_current_file_hash_def example_env_def)
qed

text \<open>
  C3. The two states of a file never deployed are told apart: with no record at all the
  file needs redeployment; with a record of the file (an entry the lookups take for this
  file) whose last deployment outcome is unset, it does not, whatever the hashes and the
  timestamps are.
\<close>

theorem never_deployed_states:
  "determine_deployment_status E f None = Inr (True, get_current_file_hash E f)
   \<and> (entry_matches fs f \<longrightarrow> dict_get fs ''LastDeploymentSuccess'' = PNone \<longrightarrow>
        determine_deployment_status E f (Some fs) = Inr (False, get_current_file_hash E f))"
  by (auto simp: determine_deployment_status_def Let_def dest: entry_matches_nonempty)

theorem never_deployed_states_witness:
  "determine_deployment_status example_env ''a.bicep'' None = Inr (True, Some ''1f'')
   \<and> determine_deployment_status example_env ''a.bicep''
       (Some [(''FileName'', PStr ''a''), (''Enabled'', PBool True), (''LastFileHash'', PStr ''00'')])
     = Inr (False, Some ''1f'')"
proof -
  let ?fs = "[(''FileName'', PStr ''a''), (''Enabled'', PBool True), (''LastFileHash'', PStr ''00'')]"
  have h1: "entry_matches ?fs ''a.bicep''"
    by (simp add: entry_matches_def dict_get_def stem_def)
  have h2: "dict_get ?fs ''LastDeploymentSuccess'' = PNone"
    by (simp add: dict_get_def)
  show ?thesis
    using never_deployed_states [of example_env "''a.bicep''" ?fs] h1 h2
    by (simp add: get_current_file_hash_def example_env_def)
qed

section \<open>Properties of the persisted state store\<close>

text \<open>
  C7. \<^verbatim>\<open>load_deployment_settings\<close> returns the default settings for a file that is
  absent or is not JSON, but it raises for a file that holds a JSON document other than an
  object (here the document \<^verbatim>\<open>[]\<close>: \<^verbatim>\<open>data.get\<close> raises \<^verbatim>\<open>AttributeError\<close>, which
  the handler does not catch) and for a file that is not UTF-8 text.
\<close>

theorem load_deployment_settings_raises:
  "load_deployment_settings Absent = Inr default_DeploymentSettings
   \<and> load_deployment_settings Unparsable = Inr default_DeploymentSettings
   \<and> load_deployment_settings (Parsed (PList [])) = Inl AttributeError
   \<and> load_deployment_settings Undecodable = Inl UnicodeDecodeError"
  by simp

end
